theory Spec2Isabelle
  imports Complex_Main
begin

section \<open>Data model\<close>

text \<open>
  Python text is a sequence of Unicode code points, so it is modelled as a list of
  natural numbers; an Isabelle \<open>string\<close> literal stands for the ASCII text of the same
  spelling through \<open>ascii\<close>. Tag names and attribute names are plain \<open>string\<close>s.

  A parsed page is a tree of text nodes and tags. An attribute value is either one
  text (\<open>id\<close>, \<open>lang\<close>) or the list of tokens of a multi-valued attribute (\<open>class\<close>).
\<close>

type_synonym ustring = "nat list"

definition ascii :: "string \<Rightarrow> ustring" where
  "ascii s = map of_char s"

datatype attr_value = Single ustring | Multi "ustring list"

datatype node =
    Text ustring
  | Tag string "(string \<times> attr_value) list" "node list"

text \<open>A decoded JSON value, as \<open>json.load\<close> returns it.\<close>

datatype pyval =
    PyNone
  | PyBool bool
  | PyInt int
  | PyFloat real
  | PyStr ustring
  | PyList "pyval list"
  | PyDict "(ustring \<times> pyval) list"

text \<open>The exceptions the program can raise; \<open>Exception\<close> carries its argument.\<close>

datatype error = ValueError | TypeError | KeyError | Exception pyval

datatype script = hiragana | katakana

record usage_record =
  reading :: ustring
  type :: script
  percentage :: real

record ranked_entry =
  meaning :: ustring
  entry_percentage :: real

section \<open>Document queries\<close>

fun name :: "node \<Rightarrow> string option" where
  "name (Text t) = None"
| "name (Tag n as cs) = Some n"

fun children :: "node \<Rightarrow> node list" where
  "children (Text t) = []"
| "children (Tag n as cs) = cs"

fun attr :: "string \<Rightarrow> node \<Rightarrow> attr_value option" where
  "attr a (Text t) = None"
| "attr a (Tag n as cs) = map_of as a"

text \<open>All nodes below a node, in document order (the node itself excluded).\<close>

fun descendants :: "node \<Rightarrow> node list"
  and descendants_list :: "node list \<Rightarrow> node list" where
  "descendants (Text t) = []"
| "descendants (Tag n as cs) = descendants_list cs"
| "descendants_list [] = []"
| "descendants_list (c # cs) = c # descendants c @ descendants_list cs"

text \<open>
  \<open>.string\<close>: a text node is its own string; a tag has one only when it has exactly one
  child, whose string it then is.
\<close>

fun string :: "node \<Rightarrow> ustring option" where
  "string (Text t) = Some t"
| "string (Tag n as [c]) = string c"
| "string (Tag n as cs) = None"

text \<open>\<open>.text\<close>: the text nodes below a node, concatenated in document order.\<close>

fun get_text :: "node \<Rightarrow> ustring"
  and get_text_list :: "node list \<Rightarrow> ustring" where
  "get_text (Text t) = t"
| "get_text (Tag n as cs) = get_text_list cs"
| "get_text_list [] = []"
| "get_text_list (c # cs) = get_text c @ get_text_list cs"

definition join_tokens :: "ustring list \<Rightarrow> ustring" where
  "join_tokens ts = (case ts of [] \<Rightarrow> [] | t # rest \<Rightarrow> t @ concat (map (\<lambda>u. 32 # u) rest))"

text \<open>
  An attribute filter matches a single value by equality, and a multi-valued attribute
  when one of its tokens, or the tokens joined by blanks, equal the wanted text.
\<close>

definition attr_matches :: "string \<Rightarrow> ustring \<Rightarrow> node \<Rightarrow> bool" where
  "attr_matches a v n =
     (case attr a n of
        None \<Rightarrow> False
      | Some (Single x) \<Rightarrow> x = v
      | Some (Multi xs) \<Rightarrow> v \<in> set xs \<or> join_tokens xs = v)"

definition named :: "string \<Rightarrow> node \<Rightarrow> bool" where
  "named n x = (name x = Some n)"

definition find_all :: "(node \<Rightarrow> bool) \<Rightarrow> node \<Rightarrow> node list" where
  "find_all p n = filter p (descendants n)"

definition find_first :: "(node \<Rightarrow> bool) \<Rightarrow> node \<Rightarrow> node option" where
  "find_first p n = (case find_all p n of [] \<Rightarrow> None | x # rest \<Rightarrow> Some x)"

section \<open>Sorting\<close>

text \<open>
  \<open>sorted(..., key=k, reverse=True)\<close> and \<open>list.sort(key=k, reverse=True)\<close>: a stable
  sort in descending order of the key, elements with equal keys keeping their order.
  Python reverses, sorts stably ascending and reverses again.
\<close>

definition sort_reverse :: "('a \<Rightarrow> real) \<Rightarrow> 'a list \<Rightarrow> 'a list" where
  "sort_reverse k xs = rev (sort_key k (rev xs))"

section \<open>Usage Table Extractor\<close>

text \<open>
  The character classes of the two regular expressions, by code point: U+3041 to
  U+3093 for the first, U+30A1 to U+30F3 for the second.
\<close>

definition is_hiragana :: "nat \<Rightarrow> bool" where
  "is_hiragana c = (0x3041 \<le> c \<and> c \<le> 0x3093)"

definition is_katakana :: "nat \<Rightarrow> bool" where
  "is_katakana c = (0x30A1 \<le> c \<and> c \<le> 0x30F3)"

text \<open>
  The reading token of one reading span: the strings of its direct children, those of
  \<open>em\<close> children and empty or missing ones left out.
\<close>

definition span_reading :: "node \<Rightarrow> ustring" where
  "span_reading reading_span =
     concat (map (\<lambda>child. the (string child))
        (filter (\<lambda>child. string child \<noteq> None \<and> string child \<noteq> Some [] \<and> name child \<noteq> Some ''em'')
           (children reading_span)))"

definition replace_percent :: "ustring \<Rightarrow> ustring" where
  "replace_percent s = filter (\<lambda>c. c \<noteq> 37) s"

text \<open>
  The body of the row loop, in two parts. \<open>row_reading\<close> is the value of
  \<open>readings[0]\<close> when the row reaches the conversion of its percentage: it has at least
  two cells, a link in the first one and at least one reading span in the link.
  \<open>row_records\<close> gives the records the row appends. The conversion \<open>float\<close> of the
  second cell's text is a parameter: it yields a number or raises. A float is
  modelled by the real number it holds, so infinities and NaN are outside the model.
\<close>

definition row_reading :: "node \<Rightarrow> ustring option" where
  "row_reading row =
     (let cells = find_all (named ''td'') row in
      if length cells \<ge> 2 then
        (case find_first (named ''a'') (cells ! 0) of
           None \<Rightarrow> None
         | Some link \<Rightarrow>
            (let reading_spans =
                   find_all (\<lambda>n. named ''span'' n \<and> attr_matches ''class'' (ascii ''reading'') n) link;
                 readings = map span_reading reading_spans
             in if readings \<noteq> [] then Some (readings ! 0) else None))
      else None)"

definition percentage_text :: "node \<Rightarrow> ustring" where
  "percentage_text row = replace_percent (get_text (find_all (named ''td'') row ! 1))"

definition row_records :: "(ustring \<Rightarrow> error + real) \<Rightarrow> node \<Rightarrow> error + usage_record list" where
  "row_records float row =
     (case row_reading row of
        None \<Rightarrow> Inr []
      | Some reading0 \<Rightarrow>
          (case float (percentage_text row) of
             Inl e \<Rightarrow> Inl e
           | Inr pct \<Rightarrow>
               if pct \<noteq> 0 then
                 (let hiragana_reading = filter is_hiragana reading0;
                      katakana_reading = filter is_katakana reading0
                  in Inr ((if hiragana_reading \<noteq> []
                           then [\<lparr>reading = hiragana_reading, type = hiragana, percentage = pct\<rparr>]
                           else [])
                          @ (if katakana_reading \<noteq> []
                             then [\<lparr>reading = katakana_reading, type = katakana, percentage = pct\<rparr>]
                             else [])))
               else Inr []))"

fun scan_rows :: "(ustring \<Rightarrow> error + real) \<Rightarrow> node list \<Rightarrow> usage_record list
    \<Rightarrow> error + usage_record list" where
  "scan_rows float [] kanji_data = Inr kanji_data"
| "scan_rows float (row # rows) kanji_data =
     (case row_records float row of
        Inl e \<Rightarrow> Inl e
      | Inr rs \<Rightarrow> scan_rows float rows (kanji_data @ rs))"

fun scan_tables :: "(ustring \<Rightarrow> error + real) \<Rightarrow> node list \<Rightarrow> usage_record list
    \<Rightarrow> error + usage_record list" where
  "scan_tables float [] kanji_data = Inr kanji_data"
| "scan_tables float (table # tables) kanji_data =
     (case scan_rows float (find_all (named ''tr'') table) kanji_data of
        Inl e \<Rightarrow> Inl e
      | Inr kanji_data' \<Rightarrow> scan_tables float tables kanji_data')"

definition extract_kanji_usage_data :: "(ustring \<Rightarrow> error + real) \<Rightarrow> node
    \<Rightarrow> error + usage_record list" where
  "extract_kanji_usage_data float soup =
     (case scan_tables float (find_all (named ''table'') soup) [] of
        Inl e \<Rightarrow> Inl e
      | Inr kanji_data \<Rightarrow> Inr (sort_reverse percentage kanji_data))"

section \<open>Dictionaries\<close>

text \<open>
  A Python dictionary keeps its keys in insertion order, and assigning to a key that is
  present replaces the value where the key stands: an association list.
\<close>

definition dict_get :: "('k \<times> 'v) list \<Rightarrow> 'k \<Rightarrow> 'v option" where
  "dict_get d k = map_of d k"

fun dict_set :: "'k \<Rightarrow> 'v \<Rightarrow> ('k \<times> 'v) list \<Rightarrow> ('k \<times> 'v) list" where
  "dict_set k v [] = [(k, v)]"
| "dict_set k v ((k', v') # d) = (if k' = k then (k, v) # d else (k', v') # dict_set k v d)"

definition keys :: "('k \<times> 'v) list \<Rightarrow> 'k list" where
  "keys d = map fst d"

section \<open>Reading Extractor\<close>

text \<open>
  The siblings that follow the first node, in document order, that satisfies \<open>p\<close>
  among the given nodes and everything below them.
\<close>

fun next_siblings_of_first :: "(node \<Rightarrow> bool) \<Rightarrow> node list \<Rightarrow> node list option" where
  "next_siblings_of_first p [] = None"
| "next_siblings_of_first p (Text t # rest) =
     (if p (Text t) then Some rest else next_siblings_of_first p rest)"
| "next_siblings_of_first p (Tag n as cs # rest) =
     (if p (Tag n as cs) then Some rest
      else (case next_siblings_of_first p cs of
              Some sibs \<Rightarrow> Some sibs
            | None \<Rightarrow> next_siblings_of_first p rest))"

definition strip_hyphen :: "ustring \<Rightarrow> ustring" where
  "strip_hyphen s = rev (dropWhile (\<lambda>c. c = 45) (rev (dropWhile (\<lambda>c. c = 45) s)))"

text \<open>The characters \<open>str.strip()\<close> removes: those for which \<open>str.isspace\<close> holds.\<close>

definition isspace :: "nat \<Rightarrow> bool" where
  "isspace c =
     ((0x09 \<le> c \<and> c \<le> 0x0D) \<or> (0x1C \<le> c \<and> c \<le> 0x20) \<or> c = 0x85 \<or> c = 0xA0
      \<or> c = 0x1680 \<or> (0x2000 \<le> c \<and> c \<le> 0x200A) \<or> c = 0x2028 \<or> c = 0x2029
      \<or> c = 0x202F \<or> c = 0x205F \<or> c = 0x3000)"

definition strip :: "ustring \<Rightarrow> ustring" where
  "strip s = rev (dropWhile isspace (rev (dropWhile isspace s)))"

text \<open>\<open>get_text(strip=True)\<close>: every text node stripped, the results concatenated.\<close>

fun get_text_strip :: "node \<Rightarrow> ustring"
  and get_text_strip_list :: "node list \<Rightarrow> ustring" where
  "get_text_strip (Text t) = strip t"
| "get_text_strip (Tag n as cs) = get_text_strip_list cs"
| "get_text_strip_list [] = []"
| "get_text_strip_list (c # cs) = get_text_strip c @ get_text_strip_list cs"

text \<open>
  One list entry: its reading token and meaning, when it holds a table tagged as
  Japanese; otherwise the entry is passed over.
\<close>

definition item_entry :: "node \<Rightarrow> (ustring \<times> ustring) option" where
  "item_entry item =
     (let reading_table =
            find_first (\<lambda>n. named ''table'' n \<and> attr_matches ''lang'' (ascii ''ja'') n) item;
          meaning_span =
            find_first (\<lambda>n. named ''span'' n \<and> attr_matches ''class'' (ascii ''readingMeaning'') n)
              item
      in case reading_table of
           None \<Rightarrow> None
         | Some t \<Rightarrow>
             Some (strip_hyphen
                     (concat (filter (\<lambda>txt. txt \<noteq> []) (map get_text (find_all (named ''td'') t)))),
                   (case meaning_span of None \<Rightarrow> [] | Some m \<Rightarrow> get_text_strip m)))"

text \<open>
  The assignment
  \<open>readings[reading] = readings.get(reading, "") + (", " + meaning if readings.get(reading) else meaning)\<close>.
\<close>

definition merge_entry :: "(ustring \<times> ustring) list \<Rightarrow> ustring \<times> ustring
    \<Rightarrow> (ustring \<times> ustring) list" where
  "merge_entry readings e =
     dict_set (fst e)
       ((case dict_get readings (fst e) of None \<Rightarrow> [] | Some m \<Rightarrow> m)
        @ (if dict_get readings (fst e) \<noteq> None \<and> dict_get readings (fst e) \<noteq> Some []
           then ascii '', '' @ snd e else snd e))
       readings"

text \<open>The (reading, meaning) pairs of the entries of a reading list, in list order.\<close>

definition list_entries :: "node \<Rightarrow> (ustring \<times> ustring) list" where
  "list_entries reading_list = List.map_filter item_entry (find_all (named ''li'') reading_list)"

definition reading_list_of :: "node \<Rightarrow> ustring \<Rightarrow> node option" where
  "reading_list_of readings_div reading_type =
     (case next_siblings_of_first (\<lambda>n. named ''h5'' n \<and> string n = Some reading_type)
             (children readings_div) of
        None \<Rightarrow> None
      | Some sibs \<Rightarrow> List.find (named ''ul'') sibs)"

definition extract_reading_type :: "node \<Rightarrow> ustring \<Rightarrow> (ustring \<times> ustring) list" where
  "extract_reading_type readings_div reading_type =
     (case reading_list_of readings_div reading_type of
        None \<Rightarrow> []
      | Some reading_list \<Rightarrow> foldl merge_entry [] (list_entries reading_list))"

definition extract_readings :: "node
    \<Rightarrow> (ustring \<times> ustring) list \<times> (ustring \<times> ustring) list \<times> (ustring \<times> ustring) list" where
  "extract_readings readings_div =
     (extract_reading_type readings_div (ascii ''Kun'' @ [39] @ ascii ''yomi''),
      extract_reading_type readings_div (ascii ''On'' @ [39] @ ascii ''yomi''),
      extract_reading_type readings_div (ascii ''Nanori''))"

section \<open>Reading Ranker/Filter\<close>

definition reading_percentages :: "usage_record list \<Rightarrow> (ustring \<times> real) list" where
  "reading_percentages kanji_usage_data =
     foldl (\<lambda>d item. dict_set (reading item) (percentage item) d) [] kanji_usage_data"

definition sort_key_of :: "(ustring \<times> real) list \<Rightarrow> ustring \<times> ustring \<Rightarrow> real" where
  "sort_key_of rp item = (case dict_get rp (fst item) of None \<Rightarrow> 0 | Some p \<Rightarrow> p)"

definition filter_and_sort_reading_type :: "(ustring \<times> ustring) list \<Rightarrow> (ustring \<times> real) list
    \<Rightarrow> (ustring \<times> ranked_entry) list" where
  "filter_and_sort_reading_type reading_type_dict rp =
     foldl (\<lambda>out item.
              case dict_get rp (fst item) of
                None \<Rightarrow> out
              | Some p \<Rightarrow> dict_set (fst item) \<lparr>meaning = snd item, entry_percentage = p\<rparr> out)
       [] (sort_reverse (sort_key_of rp) reading_type_dict)"

definition filter_and_sort_readings :: "(ustring \<times> ustring) list \<Rightarrow> (ustring \<times> ustring) list
    \<Rightarrow> (ustring \<times> ustring) list \<Rightarrow> usage_record list
    \<Rightarrow> (ustring \<times> ranked_entry) list \<times> (ustring \<times> ranked_entry) list
        \<times> (ustring \<times> ranked_entry) list" where
  "filter_and_sort_readings kunyomi onyomi nanori kanji_usage_data =
     (let rp = reading_percentages kanji_usage_data
      in (filter_and_sort_reading_type kunyomi rp,
          filter_and_sort_reading_type onyomi rp,
          filter_and_sort_reading_type nanori rp))"

section \<open>Per-Character Pipeline\<close>

text \<open>
  One step of a CSS selector path: a tag name, an id, class tokens and
  \<open>:nth-child(1)\<close>, each optional. The steps of a path are joined by the child
  combinator \<open>>\<close>.
\<close>

record compound =
  sel_name :: "string option"
  sel_id :: "ustring option"
  sel_classes :: "ustring list"
  sel_first_child :: bool

definition has_class :: "ustring \<Rightarrow> node \<Rightarrow> bool" where
  "has_class c n = (case attr ''class'' n of Some (Multi xs) \<Rightarrow> c \<in> set xs | _ \<Rightarrow> False)"

definition matches_compound :: "compound \<Rightarrow> bool \<Rightarrow> node \<Rightarrow> bool" where
  "matches_compound c first n =
     ((case sel_name c of None \<Rightarrow> True | Some t \<Rightarrow> named t n)
      \<and> (case sel_id c of None \<Rightarrow> True | Some i \<Rightarrow> attr ''id'' n = Some (Single i))
      \<and> list_all (\<lambda>k. has_class k n) (sel_classes c)
      \<and> (if sel_first_child c then first else True))"

text \<open>
  \<open>select_nodes path pending first ns\<close> walks the nodes \<open>ns\<close>, siblings under one
  parent, in document order. \<open>pending\<close> holds the rests of the path whose earlier steps
  the parent has matched (the whole path is always among them, since its first step
  may match anywhere); \<open>first\<close> tells whether no tag precedes among the siblings.
  The first tag that completes the path is returned.
\<close>

fun select_nodes :: "compound list \<Rightarrow> compound list list \<Rightarrow> bool \<Rightarrow> node list \<Rightarrow> node option" where
  "select_nodes path pending first [] = None"
| "select_nodes path pending first (Text t # rest) = select_nodes path pending first rest"
| "select_nodes path pending first (Tag n as cs # rest) =
     (let advanced =
            map tl (filter (\<lambda>p. p \<noteq> [] \<and> matches_compound (hd p) first (Tag n as cs)) pending)
      in if [] \<in> set advanced then Some (Tag n as cs)
         else (case select_nodes path (path # filter (\<lambda>p. p \<noteq> []) advanced) True cs of
                 Some found \<Rightarrow> Some found
               | None \<Rightarrow> select_nodes path pending False rest))"

definition select_one :: "compound list \<Rightarrow> node \<Rightarrow> node option" where
  "select_one path soup = (if path = [] then None else select_nodes path [path] True (children soup))"

definition div_step :: compound where
  "div_step = \<lparr>sel_name = Some ''div'', sel_id = None, sel_classes = [], sel_first_child = False\<rparr>"

text \<open>
  The fixed path
  \<open>#bodyTag > div > div > div > div:nth-child(1) > div.col-xl-8.col-lg-7.col-md-6 > div > div.col-lg-9.col-md-9.col-sm-10 > div\<close>.
\<close>

definition readings_div_selector :: "compound list" where
  "readings_div_selector =
     [\<lparr>sel_name = None, sel_id = Some (ascii ''bodyTag''), sel_classes = [], sel_first_child = False\<rparr>,
      div_step, div_step, div_step,
      div_step\<lparr>sel_first_child := True\<rparr>,
      div_step\<lparr>sel_classes := [ascii ''col-xl-8'', ascii ''col-lg-7'', ascii ''col-md-6'']\<rparr>,
      div_step,
      div_step\<lparr>sel_classes := [ascii ''col-lg-9'', ascii ''col-md-9'', ascii ''col-sm-10'']\<rparr>,
      div_step]"

record character_result =
  kanji :: ustring
  kunyomi :: "(ustring \<times> ranked_entry) list"
  onyomi :: "(ustring \<times> ranked_entry) list"
  nanori :: "(ustring \<times> ranked_entry) list"

text \<open>
  The page fetcher is a parameter: for a character it yields the parsed page, or
  \<open>None\<close> after a failed request. The result is \<open>Inr None\<close> for the null return,
  \<open>Inr (Some r)\<close> for a returned record and \<open>Inl e\<close> when an exception leaves the
  function.
\<close>

definition fetch_kanji_data :: "(ustring \<Rightarrow> node option) \<Rightarrow> (ustring \<Rightarrow> error + real) \<Rightarrow> ustring
    \<Rightarrow> error + character_result option" where
  "fetch_kanji_data fetch_html_content float k =
     (case fetch_html_content k of
        None \<Rightarrow> Inr None
      | Some soup \<Rightarrow>
          (case select_one readings_div_selector soup of
             None \<Rightarrow> Inr None
           | Some readings_div \<Rightarrow>
               (case extract_readings readings_div of
                  (kun, on, nan) \<Rightarrow>
                    (case extract_kanji_usage_data float soup of
                       Inl e \<Rightarrow> Inl e
                     | Inr kanji_usage_data \<Rightarrow>
                         (case filter_and_sort_readings kun on nan kanji_usage_data of
                            (filtered_kunyomi, filtered_onyomi, filtered_nanori) \<Rightarrow>
                              Inr (Some \<lparr>kanji = k, kunyomi = filtered_kunyomi,
                                         onyomi = filtered_onyomi, nanori = filtered_nanori\<rparr>))))))"

section \<open>Flashcard update call\<close>

definition request :: "ustring \<Rightarrow> (ustring \<times> pyval) list \<Rightarrow> pyval" where
  "request action params =
     PyDict [(ascii ''action'', PyStr action), (ascii ''params'', PyDict params),
             (ascii ''version'', PyInt 6)]"

text \<open>\<open>len(x)\<close>, \<open>s in x\<close> for a text \<open>s\<close>, and \<open>x[s]\<close>, on a decoded JSON value.\<close>

fun len :: "pyval \<Rightarrow> error + nat" where
  "len (PyStr s) = Inr (length s)"
| "len (PyList xs) = Inr (length xs)"
| "len (PyDict d) = Inr (length d)"
| "len v = Inl TypeError"

fun substring :: "ustring \<Rightarrow> ustring \<Rightarrow> bool" where
  "substring s [] = (s = [])"
| "substring s (c # cs) = (take (length s) (c # cs) = s \<or> substring s cs)"

fun contains :: "ustring \<Rightarrow> pyval \<Rightarrow> error + bool" where
  "contains s (PyStr t) = Inr (substring s t)"
| "contains s (PyList xs) = Inr (PyStr s \<in> set xs)"
| "contains s (PyDict d) = Inr (s \<in> set (keys d))"
| "contains s v = Inl TypeError"

fun getitem :: "pyval \<Rightarrow> ustring \<Rightarrow> error + pyval" where
  "getitem (PyDict d) s = (case dict_get d s of None \<Rightarrow> Inl KeyError | Some v \<Rightarrow> Inr v)"
| "getitem v s = Inl TypeError"

text \<open>
  The transport is a parameter: it sends the request and decodes the JSON answer, or
  raises.
\<close>

definition invoke :: "(pyval \<Rightarrow> error + pyval) \<Rightarrow> ustring \<Rightarrow> (ustring \<times> pyval) list
    \<Rightarrow> error + pyval" where
  "invoke send action params =
     (case send (request action params) of
        Inl e \<Rightarrow> Inl e
      | Inr response \<Rightarrow>
          (case len response of
             Inl e \<Rightarrow> Inl e
           | Inr n \<Rightarrow>
               if n \<noteq> 2 then
                 Inl (Exception (PyStr (ascii ''response has an unexpected number of fields'')))
               else
                 (case contains (ascii ''error'') response of
                    Inl e \<Rightarrow> Inl e
                  | Inr has_error \<Rightarrow>
                      if \<not> has_error then
                        Inl (Exception (PyStr (ascii ''response is missing required error field'')))
                      else
                        (case contains (ascii ''result'') response of
                           Inl e \<Rightarrow> Inl e
                         | Inr has_result \<Rightarrow>
                             if \<not> has_result then
                               Inl (Exception
                                      (PyStr (ascii ''response is missing required result field'')))
                             else
                               (case getitem response (ascii ''error'') of
                                  Inl e \<Rightarrow> Inl e
                                | Inr err \<Rightarrow>
                                    if err \<noteq> PyNone then Inl (Exception err)
                                    else getitem response (ascii ''result''))))))"

section \<open>Example inputs\<close>

text \<open>
  A conversion for the examples: \<open>float\<close> on a plain decimal literal, that is blanks
  around an optional sign, digits and an optional fraction. Any other text raises
  \<open>ValueError\<close> here; the examples use no exponent, underscore, \<open>inf\<close> or \<open>nan\<close>.
\<close>

definition is_digit :: "nat \<Rightarrow> bool" where
  "is_digit c = (48 \<le> c \<and> c \<le> 57)"

definition digits_value :: "ustring \<Rightarrow> nat" where
  "digits_value ds = foldl (\<lambda>a c. 10 * a + (c - 48)) 0 ds"

definition decimal_float :: "ustring \<Rightarrow> error + real" where
  "decimal_float s =
     (let t = strip s;
          negative = (t \<noteq> [] \<and> hd t = 45);
          body = (if t \<noteq> [] \<and> (hd t = 45 \<or> hd t = 43) then tl t else t);
          whole = takeWhile is_digit body;
          rest = dropWhile is_digit body;
          frac = (if rest \<noteq> [] \<and> hd rest = 46 then tl rest else [])
      in if (rest = [] \<or> hd rest = 46) \<and> list_all is_digit frac \<and> (whole \<noteq> [] \<or> frac \<noteq> [])
         then Inr ((if negative then - 1 else 1)
                   * (real (digits_value whole) + real (digits_value frac) / 10 ^ length frac))
         else Inl ValueError)"

text \<open>
  A usage-table row: a link with one reading span in the first cell, the percentage
  text in the second.
\<close>

definition usage_row :: "ustring \<Rightarrow> ustring \<Rightarrow> node" where
  "usage_row token pct_text =
     Tag ''tr'' []
       [Tag ''td'' []
          [Tag ''a'' [] [Tag ''span'' [(''class'', Multi [ascii ''reading''])] [Text token]]],
        Tag ''td'' [] [Text pct_text]]"

definition usage_page :: "node list \<Rightarrow> node" where
  "usage_page rows = Tag ''[document]'' [] [Tag ''table'' [] rows]"

section \<open>Notions of the specification and further examples\<close>

text \<open>
  The contract in the words of the specification: the response contains exactly the two
  fields \<open>result\<close> and \<open>error\<close>; \<open>field\<close> reads one of them.
\<close>

definition has_exactly_result_and_error :: "pyval \<Rightarrow> bool" where
  "has_exactly_result_and_error response =
     (case response of
        PyDict d \<Rightarrow> distinct (keys d) \<and> set (keys d) = {ascii ''result'', ascii ''error''}
      | _ \<Rightarrow> False)"

definition field :: "pyval \<Rightarrow> ustring \<Rightarrow> pyval option" where
  "field response k = (case response of PyDict d \<Rightarrow> dict_get d k | _ \<Rightarrow> None)"

text \<open>A transport that answers every request with a well-formed response.\<close>

definition ok_response :: pyval where
  "ok_response = PyDict [(ascii ''result'', PyList [PyInt 1]), (ascii ''error'', PyNone)]"

definition send_ok :: "pyval \<Rightarrow> error + pyval" where
  "send_ok req = Inr ok_response"

text \<open>Example category mapping and usage records.\<close>

definition example_readings :: "(ustring \<times> ustring) list" where
  "example_readings =
     [([0x3042], ascii ''to meet''), ([0x3044], ascii ''stomach''), ([0x3046], ascii ''cormorant''),
      ([0x3048], ascii ''picture'')]"

definition example_records :: "usage_record list" where
  "example_records =
     [\<lparr>reading = [0x3048], type = hiragana, percentage = 30\<rparr>,
      \<lparr>reading = [0x3042], type = hiragana, percentage = 12\<rparr>,
      \<lparr>reading = [0x3046], type = hiragana, percentage = 12\<rparr>]"



text \<open>A page whose second usage row has a percentage cell that is no number.\<close>

definition malformed_page :: node where
  "malformed_page = usage_page [usage_row [0x3042] (ascii ''12%''), usage_row [0x30A2] (ascii ''n/a'')]"









text \<open>
  The merge rule in the words of the specification: the meanings of the entries of one
  reading, in list order, joined by a comma and a blank, the separator left out while
  the meaning gathered so far is empty.
\<close>

definition join_meanings :: "ustring list \<Rightarrow> ustring" where
  "join_meanings ms = foldl (\<lambda>acc m. if acc = [] then m else acc @ ascii '', '' @ m) [] ms"

text \<open>
  A list entry with a reading table of two cells, the token and a hyphen, and a
  meaning span; and a reading section with three entries, two of them for one reading.
\<close>

definition reading_item :: "ustring \<Rightarrow> ustring \<Rightarrow> node" where
  "reading_item token m =
     Tag ''li'' []
       [Tag ''table'' [(''lang'', Single (ascii ''ja''))]
          [Tag ''tr'' [] [Tag ''td'' [] [Text token], Tag ''td'' [] [Text [45]]]],
        Tag ''span'' [(''class'', Multi [ascii ''readingMeaning''])] [Text m]]"

definition example_list :: node where
  "example_list =
     Tag ''ul'' []
       [reading_item [0x3042] (ascii ''to meet''), reading_item [0x3044] [],
        reading_item [0x3042] (ascii '' to see '')]"

definition example_div :: node where
  "example_div = Tag ''div'' [] [Tag ''h5'' [] [Text (ascii ''Nanori'')], example_list]"

text \<open>
  A page that holds the reading container at the end of the fixed path, and a usage
  table whose percentage cell is no number; and a fetcher that returns it.
\<close>

definition container_path :: "node list \<Rightarrow> node" where
  "container_path inner =
     Tag ''body'' [(''id'', Single (ascii ''bodyTag''))]
       [Tag ''div'' [] [Tag ''div'' [] [Tag ''div'' []
          [Tag ''div'' []
             [Tag ''div'' [(''class'', Multi [ascii ''col-xl-8'', ascii ''col-lg-7'', ascii ''col-md-6''])]
                [Tag ''div'' []
                   [Tag ''div'' [(''class'', Multi [ascii ''col-lg-9'', ascii ''col-md-9'',
                                                    ascii ''col-sm-10''])]
                      [Tag ''div'' [] inner]]]]]]]]"

definition broken_page :: node where
  "broken_page =
     Tag ''[document]'' []
       [container_path [],
        Tag ''table'' [] [usage_row [0x30A2] (ascii ''n/a'')]]"

definition fetch_broken_page :: "ustring \<Rightarrow> node option" where
  "fetch_broken_page k = Some broken_page"

text \<open>
  A page with the same container, now holding a name-reading section, and a well-formed
  usage table; and a fetcher that returns it.
\<close>

definition good_page :: node where
  "good_page =
     Tag ''[document]'' []
       [container_path [Tag ''h5'' [] [Text (ascii ''Nanori'')], example_list],
        Tag ''table'' [] [usage_row [0x3042] (ascii ''12%'')]]"

definition fetch_good_page :: "ustring \<Rightarrow> node option" where
  "fetch_good_page k = Some good_page"

section \<open>Properties of the flashcard update call\<close>

lemma substring_length: "substring s t \<Longrightarrow> length s \<le> length t"
proof (induction t)
  case Nil then show ?case by simp
next
  case (Cons c cs)
  from Cons.prems have "take (length s) (c # cs) = s \<or> substring s cs" by simp
  then show ?case
  proof
    assume "take (length s) (c # cs) = s"
    then have "length (take (length s) (c # cs)) = length s" by simp
    then have "min (length (c # cs)) (length s) = length s" by (simp only: length_take)
    then show ?thesis by linarith
  next
    assume "substring s cs"
    then show ?thesis using Cons.IH by simp
  qed
qed

lemma in_keys_get: "k \<in> set (keys d) \<Longrightarrow> \<exists>v. dict_get d k = Some v"
  unfolding keys_def dict_get_def by (metis map_of_eq_None_iff not_None_eq set_map)

lemma two_keys:
  assumes "a \<noteq> b"
  shows "(length d = 2 \<and> a \<in> set (keys d) \<and> b \<in> set (keys d))
         = (distinct (keys d) \<and> set (keys d) = {b, a})"
proof
  assume l: "length d = 2 \<and> a \<in> set (keys d) \<and> b \<in> set (keys d)"
  then obtain x y where d: "d = [x, y]"
    by (metis length_0_conv length_Suc_conv numeral_2_eq_2)
  show "distinct (keys d) \<and> set (keys d) = {b, a}"
    using l assms unfolding d keys_def by auto
next
  assume r: "distinct (keys d) \<and> set (keys d) = {b, a}"
  then have "distinct (keys d)" by blast
  then have "card (set (keys d)) = length (keys d)" by (rule distinct_card)
  moreover have "card {b, a} = 2" using assms by simp
  ultimately have "length d = 2" using r by (simp add: keys_def)
  then show "length d = 2 \<and> a \<in> set (keys d) \<and> b \<in> set (keys d)" using r by simp
qed

lemma error_neq_result: "ascii ''error'' \<noteq> ascii ''result''"
  by (simp add: ascii_def)

lemma invoke_dict:
  assumes "send (request action params) = Inr (PyDict d)"
  shows "invoke send action params =
     (if length d \<noteq> 2 then Inl (Exception (PyStr (ascii ''response has an unexpected number of fields'')))
      else if ascii ''error'' \<notin> set (keys d) then Inl (Exception (PyStr (ascii ''response is missing required error field'')))
      else if ascii ''result'' \<notin> set (keys d) then Inl (Exception (PyStr (ascii ''response is missing required result field'')))
      else (case dict_get d (ascii ''error'') of None \<Rightarrow> Inl KeyError
            | Some err \<Rightarrow> if err \<noteq> PyNone then Inl (Exception err)
                else (case dict_get d (ascii ''result'') of None \<Rightarrow> Inl KeyError | Some v \<Rightarrow> Inr v)))"
  unfolding invoke_def using assms by (simp split: option.splits)

lemma invoke_non_dict:
  assumes "send (request action params) = Inr response" and "\<And>d. response \<noteq> PyDict d"
  shows "\<exists>e. invoke send action params = Inl e"
proof (cases response)
  case (PyStr s)
  have "length s = 2 \<Longrightarrow> \<not> substring (ascii ''error'') s"
    using substring_length[of "ascii ''error''" s] by (auto simp: ascii_def)
  then show ?thesis unfolding invoke_def using assms(1) PyStr by simp
next
  case (PyList xs)
  then show ?thesis unfolding invoke_def using assms(1) by simp
next
  case (PyDict d)
  then show ?thesis using assms(2) by simp
qed (use assms(1) in \<open>simp_all add: invoke_def\<close>)

text \<open>
  C9. When the transport returns a response, \<open>invoke\<close> returns the \<open>result\<close>
  field exactly when the response holds exactly the two fields \<open>result\<close> and
  \<open>error\<close> and \<open>error\<close> is null; in every other case it raises and returns
  nothing.
\<close>

theorem invoke_contract:
  assumes "send (request action params) = Inr response"
  shows "(has_exactly_result_and_error response \<and> field response (ascii ''error'') = Some PyNone
            \<longrightarrow> (\<exists>v. field response (ascii ''result'') = Some v
                     \<and> invoke send action params = Inr v))
         \<and> (\<not> (has_exactly_result_and_error response
                 \<and> field response (ascii ''error'') = Some PyNone)
            \<longrightarrow> (\<exists>e. invoke send action params = Inl e))"
proof (cases "\<exists>d. response = PyDict d")
  case False
  then have nd: "\<And>d. response \<noteq> PyDict d" by blast
  have "\<not> has_exactly_result_and_error response"
    using False by (cases response) (auto simp: has_exactly_result_and_error_def)
  moreover have "\<exists>e. invoke send action params = Inl e"
    using assms nd by (rule invoke_non_dict)
  ultimately show ?thesis by blast
next
  case True
  then obtain d where d: "response = PyDict d" by blast
  have ex: "has_exactly_result_and_error response
            = (length d = 2 \<and> ascii ''error'' \<in> set (keys d) \<and> ascii ''result'' \<in> set (keys d))"
    unfolding d has_exactly_result_and_error_def using two_keys[OF error_neq_result, of d] by simp
  have f: "\<And>k. field response k = dict_get d k" by (simp add: field_def d)
  have a: "send (request action params) = Inr (PyDict d)" using assms by (simp add: d)
  note inv = invoke_dict[of send action params d, OF a]
  show ?thesis
  proof (cases "has_exactly_result_and_error response")
    case False
    then show ?thesis using ex inv by auto
  next
    case True
    then have ks: "ascii ''error'' \<in> set (keys d)" "ascii ''result'' \<in> set (keys d)"
      using ex by simp_all
    obtain e where e: "dict_get d (ascii ''error'') = Some e"
      using in_keys_get[OF ks(1)] by blast
    obtain r where r: "dict_get d (ascii ''result'') = Some r"
      using in_keys_get[OF ks(2)] by blast
    show ?thesis using True ex e r inv f by auto
  qed
qed

text \<open>The contract at a well-formed response.\<close>

theorem invoke_contract_witness:
  "send_ok (request (ascii ''findNotes'') []) = Inr ok_response
   \<and> has_exactly_result_and_error ok_response
   \<and> field ok_response (ascii ''error'') = Some PyNone
   \<and> invoke send_ok (ascii ''findNotes'') [] = Inr (PyList [PyInt 1])"
proof -
  have s: "send_ok (request (ascii ''findNotes'') []) = Inr ok_response"
    by (simp add: send_ok_def)
  have h: "has_exactly_result_and_error ok_response"
    by (auto simp: has_exactly_result_and_error_def ok_response_def keys_def ascii_def)
  have e: "field ok_response (ascii ''error'') = Some PyNone"
    by (simp add: field_def ok_response_def dict_get_def ascii_def)
  have r: "field ok_response (ascii ''result'') = Some (PyList [PyInt 1])"
    by (simp add: field_def ok_response_def dict_get_def)
  from invoke_contract[of send_ok "ascii ''findNotes''" "[]" ok_response, OF s] h e r
  show ?thesis using s by auto
qed

section \<open>Dictionaries and sorting: basic facts\<close>

lemma dict_get_dict_set:
  "dict_get (dict_set k v d) k' = (if k' = k then Some v else dict_get d k')"
  by (induction d) (auto simp: dict_get_def)

lemma set_dict_set: "set (dict_set k v d) \<subseteq> insert (k, v) (set d)"
  by (induction d) (auto split: if_splits)

lemma keys_dict_set:
  "keys (dict_set k v d) = (if k \<in> set (keys d) then keys d else keys d @ [k])"
  by (induction d) (force simp: keys_def)+


lemma dict_get_None_iff: "dict_get d k = None \<longleftrightarrow> k \<notin> set (keys d)"
  by (simp add: dict_get_def keys_def map_of_eq_None_iff)





lemma set_sort_reverse: "set (sort_reverse k xs) = set xs"
  by (simp add: sort_reverse_def)


section \<open>Reading Ranker/Filter: properties\<close>

lemma rank_fold_entries:
  fixes rp :: "(ustring \<times> real) list"
  defines "step \<equiv> (\<lambda>out item. case dict_get rp (fst item) of None \<Rightarrow> out
       | Some p \<Rightarrow> dict_set (fst item) \<lparr>meaning = snd item, entry_percentage = p\<rparr> out)"
  assumes "\<forall>x\<in>set acc. dict_get rp (fst x) = Some (entry_percentage (snd x))"
  shows "\<forall>x\<in>set (foldl step acc items). dict_get rp (fst x) = Some (entry_percentage (snd x))"
  using assms(2)
proof (induction items arbitrary: acc)
  case Nil
  then show ?case by simp
next
  case (Cons item items)
  have "\<forall>x\<in>set (step acc item). dict_get rp (fst x) = Some (entry_percentage (snd x))"
  proof (cases "dict_get rp (fst item)")
    case None
    then show ?thesis using Cons.prems by (simp add: step_def)
  next
    case (Some p)
    then have "step acc item = dict_set (fst item) \<lparr>meaning = snd item, entry_percentage = p\<rparr> acc"
      by (simp add: step_def)
    then show ?thesis using Cons.prems Some set_dict_set[of "fst item" _ acc] by fastforce
  qed
  then show ?case using Cons.IH by simp
qed

lemma rank_fold_keys:
  fixes rp :: "(ustring \<times> real) list"
  defines "step \<equiv> (\<lambda>out item. case dict_get rp (fst item) of None \<Rightarrow> out
       | Some p \<Rightarrow> dict_set (fst item) \<lparr>meaning = snd item, entry_percentage = p\<rparr> out)"
  shows "set (keys (foldl step acc items))
         = set (keys acc) \<union> {r \<in> fst ` set items. dict_get rp r \<noteq> None}"
proof (induction items arbitrary: acc)
  case Nil
  then show ?case by simp
next
  case (Cons item items)
  have "set (keys (step acc item))
        = set (keys acc) \<union> {r \<in> {fst item}. dict_get rp r \<noteq> None}"
    by (cases "dict_get rp (fst item)") (auto simp: step_def keys_dict_set)
  then show ?case using Cons.IH[of "step acc item"] by auto
qed


section \<open>Claims about the Reading Ranker/Filter\<close>

lemma example_lookup:
  "reading_percentages example_records = [([0x3048], 30), ([0x3042], 12), ([0x3046], 12)]"
  by (simp add: reading_percentages_def example_records_def)

lemma example_ranked:
  "filter_and_sort_reading_type example_readings (reading_percentages example_records)
   = [([0x3048], \<lparr>meaning = ascii ''picture'', entry_percentage = 30\<rparr>),
      ([0x3042], \<lparr>meaning = ascii ''to meet'', entry_percentage = 12\<rparr>),
      ([0x3046], \<lparr>meaning = ascii ''cormorant'', entry_percentage = 12\<rparr>)]"
  unfolding example_lookup
  by (simp add: filter_and_sort_reading_type_def example_readings_def sort_reverse_def
      sort_key_of_def dict_get_def)

text \<open>
  C1. Every reading in the output of the Ranker is a key of the lookup built from the
  usage records, and carries the percentage looked up there; the readings of the output
  are exactly the readings of the category mapping that the lookup holds, so a reading
  absent from the lookup is dropped.
\<close>

theorem ranker_output_in_lookup:
  "(\<forall>x\<in>set (filter_and_sort_reading_type d (reading_percentages recs)).
       dict_get (reading_percentages recs) (fst x) = Some (entry_percentage (snd x)))
   \<and> set (keys (filter_and_sort_reading_type d (reading_percentages recs)))
       = {r \<in> set (keys d). dict_get (reading_percentages recs) r \<noteq> None}"
proof
  show "\<forall>x\<in>set (filter_and_sort_reading_type d (reading_percentages recs)).
       dict_get (reading_percentages recs) (fst x) = Some (entry_percentage (snd x))"
    unfolding filter_and_sort_reading_type_def by (rule rank_fold_entries) simp
  show "set (keys (filter_and_sort_reading_type d (reading_percentages recs)))
       = {r \<in> set (keys d). dict_get (reading_percentages recs) r \<noteq> None}"
    unfolding filter_and_sort_reading_type_def rank_fold_keys
    by (simp add: keys_def set_sort_reverse)
qed

text \<open>The same at the example: one reading of the mapping is absent from the lookup.\<close>

theorem ranker_output_in_lookup_witness:
  "([0x3042], \<lparr>meaning = ascii ''to meet'', entry_percentage = 12\<rparr>)
     \<in> set (filter_and_sort_reading_type example_readings (reading_percentages example_records))
   \<and> dict_get (reading_percentages example_records) [0x3042] = Some 12
   \<and> dict_get (reading_percentages example_records) [0x3044] = None
   \<and> [0x3044] \<notin> set (keys (filter_and_sort_reading_type example_readings
                               (reading_percentages example_records)))"
proof -
  have m: "([0x3042], \<lparr>meaning = ascii ''to meet'', entry_percentage = 12\<rparr>)
     \<in> set (filter_and_sort_reading_type example_readings (reading_percentages example_records))"
    unfolding example_ranked by simp
  have n: "dict_get (reading_percentages example_records) [0x3044] = None"
    unfolding example_lookup by (simp add: dict_get_def)
  from ranker_output_in_lookup[of example_readings example_records] m n
  show ?thesis by fastforce
qed




section \<open>Usage rows: evaluation of the example rows\<close>

lemma usage_row_cells:
  "find_all (named ''td'') (usage_row token pct_text)
   = [Tag ''td'' []
        [Tag ''a'' [] [Tag ''span'' [(''class'', Multi [ascii ''reading''])] [Text token]]],
      Tag ''td'' [] [Text pct_text]]"
  by (simp add: usage_row_def find_all_def named_def)

lemma usage_row_reading: "row_reading (usage_row token pct_text) = Some token"
  unfolding row_reading_def usage_row_cells
  by (cases "token = []")
     (simp_all add: find_all_def find_first_def named_def attr_matches_def span_reading_def)

lemma usage_row_percentage_text:
  "percentage_text (usage_row token pct_text) = replace_percent pct_text"
  unfolding percentage_text_def usage_row_cells by simp

lemma usage_page_rows:
  "scan_tables float (find_all (named ''table'') (usage_page [usage_row t1 p1, usage_row t2 p2])) []
   = scan_rows float [usage_row t1 p1, usage_row t2 p2] []"
  by (simp add: usage_page_def usage_row_def find_all_def named_def split: sum.splits)

lemma float_12: "decimal_float (replace_percent (ascii ''12%'')) = Inr 12"
  by (simp add: decimal_float_def replace_percent_def strip_def isspace_def is_digit_def
      digits_value_def ascii_def)



section \<open>Usage Table Extractor: the scan of rows and tables\<close>

lemma scan_rows_append:
  "scan_rows float (rows @ rows') acc =
     (case scan_rows float rows acc of Inl e \<Rightarrow> Inl e | Inr acc' \<Rightarrow> scan_rows float rows' acc')"
  by (induction rows arbitrary: acc) (auto split: sum.splits)

lemma scan_tables_append:
  "scan_tables float (ts @ ts') acc =
     (case scan_tables float ts acc of Inl e \<Rightarrow> Inl e | Inr acc' \<Rightarrow> scan_tables float ts' acc')"
  by (induction ts arbitrary: acc) (auto split: sum.splits)

lemma scan_rows_grows: "scan_rows float rows acc = Inr out \<Longrightarrow> set acc \<subseteq> set out"
proof (induction rows arbitrary: acc)
  case Nil
  then show ?case by simp
next
  case (Cons row rows)
  then show ?case by (fastforce split: sum.splits)
qed

lemma scan_tables_grows: "scan_tables float ts acc = Inr out \<Longrightarrow> set acc \<subseteq> set out"
proof (induction ts arbitrary: acc)
  case Nil
  then show ?case by simp
next
  case (Cons t ts)
  then show ?case using scan_rows_grows by (fastforce split: sum.splits)
qed



text \<open>A row that is scanned without error leaves its records in the result.\<close>

lemma scan_rows_member:
  assumes "row \<in> set rows" and "scan_rows float rows acc = Inr out"
  shows "\<exists>rs. row_records float row = Inr rs \<and> set rs \<subseteq> set out"
proof -
  from assms(1) obtain pre post where sp: "rows = pre @ row # post"
    by (auto simp: in_set_conv_decomp)
  from assms(2) obtain acc1 where "scan_rows float pre acc = Inr acc1"
    and r: "scan_rows float (row # post) acc1 = Inr out"
    unfolding sp scan_rows_append by (auto split: sum.splits)
  from r obtain rs where rs: "row_records float row = Inr rs"
    and rest: "scan_rows float post (acc1 @ rs) = Inr out"
    by (auto split: sum.splits)
  from scan_rows_grows[OF rest] have "set rs \<subseteq> set out" by simp
  with rs show ?thesis by blast
qed

lemma scan_tables_member:
  assumes "t \<in> set ts" and "row \<in> set (find_all (named ''tr'') t)"
    and "scan_tables float ts acc = Inr out"
  shows "\<exists>rs. row_records float row = Inr rs \<and> set rs \<subseteq> set out"
proof -
  from assms(1) obtain pre post where sp: "ts = pre @ t # post"
    by (auto simp: in_set_conv_decomp)
  from assms(3) obtain acc1 where "scan_tables float pre acc = Inr acc1"
    and r: "scan_tables float (t # post) acc1 = Inr out"
    unfolding sp scan_tables_append by (auto split: sum.splits)
  from r obtain acc2 where a: "scan_rows float (find_all (named ''tr'') t) acc1 = Inr acc2"
    and rest: "scan_tables float post acc2 = Inr out"
    by (auto split: sum.splits)
  from scan_rows_member[OF assms(2) a] obtain rs where rs: "row_records float row = Inr rs"
    and sub: "set rs \<subseteq> set acc2" by blast
  from scan_tables_grows[OF rest] sub have "set rs \<subseteq> set out" by blast
  with rs show ?thesis by blast
qed



section \<open>Claims about the lookup and the Usage Table Extractor\<close>






lemma float_na: "decimal_float (replace_percent (ascii ''n/a'')) = Inl ValueError"
  by (simp add: decimal_float_def replace_percent_def strip_def isspace_def is_digit_def
      digits_value_def ascii_def)





section \<open>Claims about malformed percentage cells\<close>

lemma row_reading_Some:
  assumes "length (find_all (named ''td'') row) \<ge> 2"
    and "find_first (named ''a'') (find_all (named ''td'') row ! 0) = Some link"
    and "find_all (\<lambda>n. named ''span'' n \<and> attr_matches ''class'' (ascii ''reading'') n) link \<noteq> []"
  shows "\<exists>token. row_reading row = Some token"
  using assms unfolding row_reading_def by (simp add: Let_def)

lemma scan_rows_error:
  assumes "row \<in> set rows" and "row_records float row = Inl e"
  shows "\<exists>e'. scan_rows float rows acc = Inl e'"
proof (cases "scan_rows float rows acc")
  case (Inl e')
  then show ?thesis by blast
next
  case (Inr out)
  from scan_rows_member[OF assms(1) Inr] assms(2) show ?thesis by auto
qed

lemma scan_tables_error:
  assumes "t \<in> set ts" and "row \<in> set (find_all (named ''tr'') t)"
    and "row_records float row = Inl e"
  shows "\<exists>e'. scan_tables float ts acc = Inl e'"
proof (cases "scan_tables float ts acc")
  case (Inl e')
  then show ?thesis by blast
next
  case (Inr out)
  from scan_tables_member[OF assms(1,2) Inr] assms(3) show ?thesis by auto
qed

text \<open>
  C10. When a table row of the document has at least two data cells, a link in the
  first cell with at least one reading span, and a second cell whose text, the percent
  signs removed, the conversion to a number rejects, the Usage Table Extractor raises:
  the row is not skipped and no record list is returned for the document.
\<close>

theorem malformed_percentage_raises:
  assumes "t \<in> set (find_all (named ''table'') soup)"
    and "row \<in> set (find_all (named ''tr'') t)"
    and "length (find_all (named ''td'') row) \<ge> 2"
    and "find_first (named ''a'') (find_all (named ''td'') row ! 0) = Some link"
    and "find_all (\<lambda>n. named ''span'' n \<and> attr_matches ''class'' (ascii ''reading'') n) link \<noteq> []"
    and "float (percentage_text row) = Inl e"
  shows "\<exists>e'. extract_kanji_usage_data float soup = Inl e'"
proof -
  from row_reading_Some[OF assms(3,4,5)] obtain token where "row_reading row = Some token"
    by blast
  then have "row_records float row = Inl e"
    using assms(6) by (simp add: row_records_def)
  from scan_tables_error[OF assms(1,2) this, of "[]"]
  show ?thesis unfolding extract_kanji_usage_data_def by auto
qed

lemma malformed_page_extract:
  "extract_kanji_usage_data decimal_float malformed_page = Inl ValueError"
  unfolding extract_kanji_usage_data_def malformed_page_def usage_page_rows
  by (simp add: row_records_def usage_row_reading usage_row_percentage_text float_12 float_na
      is_hiragana_def is_katakana_def)

text \<open>
  The page whose second row has the percentage cell \<open>n/a\<close>: the conversion raises
  \<open>ValueError\<close>, and so does the extraction, although the first row is well formed.
\<close>

theorem malformed_percentage_raises_witness:
  "Tag ''table'' [] [usage_row [0x3042] (ascii ''12%''), usage_row [0x30A2] (ascii ''n/a'')]
     \<in> set (find_all (named ''table'') malformed_page)
   \<and> usage_row [0x30A2] (ascii ''n/a'')
     \<in> set (find_all (named ''tr'')
         (Tag ''table'' [] [usage_row [0x3042] (ascii ''12%''), usage_row [0x30A2] (ascii ''n/a'')]))
   \<and> length (find_all (named ''td'') (usage_row [0x30A2] (ascii ''n/a''))) \<ge> 2
   \<and> decimal_float (percentage_text (usage_row [0x30A2] (ascii ''n/a''))) = Inl ValueError
   \<and> extract_kanji_usage_data decimal_float malformed_page = Inl ValueError"
proof -
  let ?row = "usage_row [0x30A2] (ascii ''n/a'')"
  let ?t = "Tag ''table'' [] [usage_row [0x3042] (ascii ''12%''), ?row]"
  let ?link = "Tag ''a'' [] [Tag ''span'' [(''class'', Multi [ascii ''reading''])] [Text [0x30A2]]]"
  have a: "?t \<in> set (find_all (named ''table'') malformed_page)"
    by (simp add: malformed_page_def usage_page_def find_all_def named_def usage_row_def)
  have b: "?row \<in> set (find_all (named ''tr'') ?t)"
    by (simp add: find_all_def named_def usage_row_def)
  have c: "length (find_all (named ''td'') ?row) \<ge> 2"
    unfolding usage_row_cells by simp
  have d: "find_first (named ''a'') (find_all (named ''td'') ?row ! 0) = Some ?link"
    unfolding usage_row_cells by (simp add: find_first_def find_all_def named_def)
  have e: "find_all (\<lambda>n. named ''span'' n \<and> attr_matches ''class'' (ascii ''reading'') n) ?link \<noteq> []"
    by (simp add: find_all_def named_def attr_matches_def)
  have f: "decimal_float (percentage_text ?row) = Inl ValueError"
    unfolding usage_row_percentage_text by (rule float_na)
  from malformed_percentage_raises[of ?t malformed_page ?row ?link decimal_float ValueError,
      OF a b c d e f] a b c f malformed_page_extract
  show ?thesis by simp
qed

section \<open>Claims about the partition of the reading token\<close>













section \<open>Claims about the Reading Extractor\<close>

lemma dict_get_merge_entry:
  "dict_get (merge_entry d e) r =
     (if r = fst e
      then Some (let acc = (case dict_get d r of None \<Rightarrow> [] | Some m \<Rightarrow> m)
                 in if acc = [] then snd e else acc @ ascii '', '' @ snd e)
      else dict_get d r)"
  by (auto simp: merge_entry_def dict_get_dict_set Let_def split: option.splits)

lemma keys_merge_entry:
  "keys (merge_entry d e) = (if fst e \<in> set (keys d) then keys d else keys d @ [fst e])"
  by (simp add: merge_entry_def keys_dict_set)

lemma merge_fold_keys:
  "distinct (keys d) \<Longrightarrow>
   distinct (keys (foldl merge_entry d es))
   \<and> set (keys (foldl merge_entry d es)) = set (keys d) \<union> fst ` set es"
proof (induction es arbitrary: d)
  case Nil
  then show ?case by simp
next
  case (Cons e es)
  have "distinct (keys (merge_entry d e))"
    using Cons.prems by (simp add: keys_merge_entry)
  moreover have "set (keys (merge_entry d e)) = insert (fst e) (set (keys d))"
    by (auto simp: keys_merge_entry)
  ultimately show ?case using Cons.IH[of "merge_entry d e"] by auto
qed

lemma dict_get_Nil: "dict_get [] k = None"
  by (simp add: dict_get_def)

lemma merge_fold_get:
  "dict_get (foldl merge_entry d es) r =
     (if r \<in> fst ` set es
      then Some (foldl (\<lambda>acc m. if acc = [] then m else acc @ ascii '', '' @ m)
                   (case dict_get d r of None \<Rightarrow> [] | Some m \<Rightarrow> m)
                   (map snd (filter (\<lambda>e. fst e = r) es)))
      else dict_get d r)"
proof (induction es arbitrary: d)
  case Nil
  then show ?case by simp
next
  case (Cons e es)
  let ?f = "\<lambda>acc m. if acc = [] then m else acc @ ascii '', '' @ m"
  have ih: "dict_get (foldl merge_entry (merge_entry d e) es) r =
     (if r \<in> fst ` set es
      then Some (foldl ?f (case dict_get (merge_entry d e) r of None \<Rightarrow> [] | Some m \<Rightarrow> m)
                   (map snd (filter (\<lambda>e. fst e = r) es)))
      else dict_get (merge_entry d e) r)"
    by (rule Cons.IH)
  show ?case
  proof (cases "r = fst e")
    case True
    have p: "dict_get (merge_entry d e) r
             = Some (?f (case dict_get d r of None \<Rightarrow> [] | Some m \<Rightarrow> m) (snd e))"
      using True by (simp add: dict_get_merge_entry Let_def)
    have n: "r \<notin> fst ` set es \<Longrightarrow> filter (\<lambda>e. fst e = r) es = []"
      by (auto simp: filter_empty_conv)
    show ?thesis unfolding foldl_Cons ih p using True n by auto
  next
    case False
    have p: "dict_get (merge_entry d e) r = dict_get d r"
      using False by (simp add: dict_get_merge_entry)
    show ?thesis unfolding foldl_Cons ih p using False by auto
  qed
qed

text \<open>
  C7. When the category has a reading list, the mapping the Reading Extractor returns
  has distinct keys, namely the reading tokens of the list entries, and the meaning of
  each key is the join of the meanings of all entries with that token, in list order.
\<close>

theorem merged_readings:
  assumes "reading_list_of readings_div reading_type = Some reading_list"
  shows "distinct (keys (extract_reading_type readings_div reading_type))
     \<and> set (keys (extract_reading_type readings_div reading_type))
         = fst ` set (list_entries reading_list)
     \<and> (\<forall>r\<in>fst ` set (list_entries reading_list).
           dict_get (extract_reading_type readings_div reading_type) r
           = Some (join_meanings (map snd (filter (\<lambda>e. fst e = r) (list_entries reading_list)))))"
proof -
  have e: "extract_reading_type readings_div reading_type
           = foldl merge_entry [] (list_entries reading_list)"
    using assms by (simp add: extract_reading_type_def)
  have d: "distinct (keys ([] :: (ustring \<times> ustring) list))" by (simp add: keys_def)
  from merge_fold_keys[OF d, of "list_entries reading_list"]
  have k: "distinct (keys (foldl merge_entry [] (list_entries reading_list)))"
    "set (keys (foldl merge_entry [] (list_entries reading_list)))
       = fst ` set (list_entries reading_list)"
    by (simp_all add: keys_def)
  show ?thesis
    unfolding e using k
    by (simp add: merge_fold_get dict_get_Nil join_meanings_def)
qed

lemma reading_item_entry:
  "item_entry (reading_item token m) = Some (strip_hyphen (token @ [45]), strip m)"
  by (cases "token = []")
     (simp_all add: item_entry_def reading_item_def find_first_def find_all_def named_def
        attr_matches_def)

lemma example_entries:
  "list_entries example_list
   = [([0x3042], ascii ''to meet''), ([0x3044], []), ([0x3042], ascii ''to see'')]"
proof -
  have "find_all (named ''li'') example_list
        = [reading_item [0x3042] (ascii ''to meet''), reading_item [0x3044] [],
           reading_item [0x3042] (ascii '' to see '')]"
    by (simp add: example_list_def reading_item_def find_all_def named_def)
  then show ?thesis
    unfolding list_entries_def
    by (simp add: reading_item_entry strip_hyphen_def strip_def isspace_def ascii_def)
qed

lemma example_reading_list: "reading_list_of example_div (ascii ''Nanori'') = Some example_list"
  by (simp add: reading_list_of_def example_div_def example_list_def named_def)

text \<open>
  The section with two entries for U+3042: their meanings are joined in list order, and
  the entry between them, without a meaning, keeps its own key.
\<close>

theorem merged_readings_witness:
  "reading_list_of example_div (ascii ''Nanori'') = Some example_list
   \<and> extract_reading_type example_div (ascii ''Nanori'')
       = [([0x3042], ascii ''to meet, to see''), ([0x3044], [])]
   \<and> distinct (keys (extract_reading_type example_div (ascii ''Nanori'')))
   \<and> dict_get (extract_reading_type example_div (ascii ''Nanori'')) [0x3042]
       = Some (join_meanings [ascii ''to meet'', ascii ''to see''])"
proof -
  have v: "extract_reading_type example_div (ascii ''Nanori'')
       = [([0x3042], ascii ''to meet, to see''), ([0x3044], [])]"
    unfolding extract_reading_type_def example_reading_list
    by (simp add: example_entries merge_entry_def dict_get_def ascii_def)
  have m: "[0x3042] \<in> fst ` set (list_entries example_list)"
    unfolding example_entries by simp
  from merged_readings[OF example_reading_list] m
  have "dict_get (extract_reading_type example_div (ascii ''Nanori'')) [0x3042]
        = Some (join_meanings (map snd (filter (\<lambda>e. fst e = [0x3042]) (list_entries example_list))))"
    and "distinct (keys (extract_reading_type example_div (ascii ''Nanori'')))"
    by blast+
  then show ?thesis using v example_reading_list unfolding example_entries by simp
qed

section \<open>Claims about the Per-Character Pipeline\<close>

lemma select_container:
  "select_one readings_div_selector (Tag ''[document]'' [] (container_path inner # rest))
   = Some (Tag ''div'' [] inner)"
  by (simp add: select_one_def readings_div_selector_def div_step_def container_path_def
      matches_compound_def named_def has_class_def ascii_def)

lemma fetch_kanji_data_cases:
  "fetch_kanji_data fetch float k =
     (case fetch k of
        None \<Rightarrow> Inr None
      | Some soup \<Rightarrow>
          (case select_one readings_div_selector soup of
             None \<Rightarrow> Inr None
           | Some readings_div \<Rightarrow>
               (case extract_kanji_usage_data float soup of
                  Inl e \<Rightarrow> Inl e
                | Inr recs \<Rightarrow>
                    Inr (Some \<lparr>kanji = k,
                      kunyomi = filter_and_sort_reading_type
                        (extract_reading_type readings_div (ascii ''Kun'' @ [39] @ ascii ''yomi''))
                        (reading_percentages recs),
                      onyomi = filter_and_sort_reading_type
                        (extract_reading_type readings_div (ascii ''On'' @ [39] @ ascii ''yomi''))
                        (reading_percentages recs),
                      nanori = filter_and_sort_reading_type
                        (extract_reading_type readings_div (ascii ''Nanori''))
                        (reading_percentages recs)\<rparr>))))"
  by (simp add: fetch_kanji_data_def extract_readings_def filter_and_sort_readings_def Let_def
      split: option.splits sum.splits)

lemma broken_page_extract:
  "extract_kanji_usage_data decimal_float broken_page = Inl ValueError"
proof -
  have t: "find_all (named ''table'') broken_page = [Tag ''table'' [] [usage_row [0x30A2] (ascii ''n/a'')]]"
    by (simp add: broken_page_def container_path_def usage_row_def find_all_def named_def)
  have r: "find_all (named ''tr'') (Tag ''table'' [] [usage_row [0x30A2] (ascii ''n/a'')])
           = [usage_row [0x30A2] (ascii ''n/a'')]"
    by (simp add: usage_row_def find_all_def named_def)
  show ?thesis
    unfolding extract_kanji_usage_data_def t
    by (simp add: r row_records_def usage_row_reading usage_row_percentage_text float_na)
qed

text \<open>
  C8, as stated, fails: the page is fetched and holds the reading container, yet the
  pipeline returns neither null nor a result, because the conversion of the percentage
  cell raises and the exception leaves the function.
\<close>

theorem pipeline_counterexample:
  "fetch_broken_page [0x4E00] = Some broken_page
   \<and> select_one readings_div_selector broken_page = Some (Tag ''div'' [] [])
   \<and> fetch_kanji_data fetch_broken_page decimal_float [0x4E00] = Inl ValueError"
proof -
  have s: "select_one readings_div_selector broken_page = Some (Tag ''div'' [] [])"
    unfolding broken_page_def by (rule select_container)
  show ?thesis
    unfolding fetch_kanji_data_cases
    by (simp add: fetch_broken_page_def s broken_page_extract)
qed

text \<open>
  C8, amended. The pipeline returns null when the page fetch fails or the reading
  container is not found by the fixed path. Otherwise, when the Usage Table Extractor
  returns, it returns a result with the character and all three ranked mappings; when
  the Usage Table Extractor raises, the exception leaves the pipeline and nothing is
  returned. It returns null in no other case.
\<close>

theorem pipeline_result:
  "(fetch k = None \<longrightarrow> fetch_kanji_data fetch float k = Inr None)
   \<and> (\<forall>soup. fetch k = Some soup \<and> select_one readings_div_selector soup = None
        \<longrightarrow> fetch_kanji_data fetch float k = Inr None)
   \<and> (\<forall>soup readings_div recs.
        fetch k = Some soup \<and> select_one readings_div_selector soup = Some readings_div
        \<and> extract_kanji_usage_data float soup = Inr recs
        \<longrightarrow> fetch_kanji_data fetch float k
            = Inr (Some \<lparr>kanji = k,
                kunyomi = filter_and_sort_reading_type
                  (extract_reading_type readings_div (ascii ''Kun'' @ [39] @ ascii ''yomi''))
                  (reading_percentages recs),
                onyomi = filter_and_sort_reading_type
                  (extract_reading_type readings_div (ascii ''On'' @ [39] @ ascii ''yomi''))
                  (reading_percentages recs),
                nanori = filter_and_sort_reading_type
                  (extract_reading_type readings_div (ascii ''Nanori''))
                  (reading_percentages recs)\<rparr>))
   \<and> (\<forall>soup readings_div e.
        fetch k = Some soup \<and> select_one readings_div_selector soup = Some readings_div
        \<and> extract_kanji_usage_data float soup = Inl e
        \<longrightarrow> fetch_kanji_data fetch float k = Inl e)
   \<and> (fetch_kanji_data fetch float k = Inr None
        \<longrightarrow> fetch k = None
            \<or> (\<exists>soup. fetch k = Some soup \<and> select_one readings_div_selector soup = None))"
  unfolding fetch_kanji_data_cases
  by (auto split: option.splits sum.splits)

lemma good_page_container:
  "select_one readings_div_selector good_page = Some example_div"
  unfolding good_page_def example_div_def by (rule select_container)

lemma plain_row_no_records:
  "row_records float (Tag ''tr'' [] [Tag ''td'' [] [Text a], Tag ''td'' [] [Text b]]) = Inr []"
  by (simp add: row_records_def row_reading_def find_all_def find_first_def named_def)

lemma good_page_extract:
  "extract_kanji_usage_data decimal_float good_page
   = Inr [\<lparr>reading = [0x3042], type = hiragana, percentage = 12\<rparr>]"
proof -
  let ?rt = "\<lambda>token. Tag ''table'' [(''lang'', Single (ascii ''ja''))]
          [Tag ''tr'' [] [Tag ''td'' [] [Text token], Tag ''td'' [] [Text [45]]]]"
  have t: "find_all (named ''table'') good_page
           = [?rt [0x3042], ?rt [0x3044], ?rt [0x3042],
              Tag ''table'' [] [usage_row [0x3042] (ascii ''12%'')]]"
    by (simp add: good_page_def container_path_def example_list_def reading_item_def
        usage_row_def find_all_def named_def)
  have q: "\<And>token. find_all (named ''tr'') (?rt token)
           = [Tag ''tr'' [] [Tag ''td'' [] [Text token], Tag ''td'' [] [Text [45]]]]"
    by (simp add: find_all_def named_def)
  have r: "find_all (named ''tr'') (Tag ''table'' [] [usage_row [0x3042] (ascii ''12%'')])
           = [usage_row [0x3042] (ascii ''12%'')]"
    by (simp add: usage_row_def find_all_def named_def)
  have u: "row_records decimal_float (usage_row [0x3042] (ascii ''12%''))
           = Inr [\<lparr>reading = [0x3042], type = hiragana, percentage = 12\<rparr>]"
    by (simp add: row_records_def usage_row_reading usage_row_percentage_text float_12
        is_hiragana_def is_katakana_def)
  show ?thesis
    unfolding extract_kanji_usage_data_def t
    by (simp add: q r plain_row_no_records u sort_reverse_def)
qed

lemma example_nanori:
  "extract_reading_type example_div (ascii ''Nanori'')
   = [([0x3042], ascii ''to meet, to see''), ([0x3044], [])]"
  unfolding extract_reading_type_def example_reading_list
  by (simp add: example_entries merge_entry_def dict_get_def ascii_def)

lemma example_other_categories:
  "extract_reading_type example_div (ascii ''Kun'' @ 39 # ascii ''yomi'') = []"
  "extract_reading_type example_div (ascii ''On'' @ 39 # ascii ''yomi'') = []"
  by (simp_all add: extract_reading_type_def reading_list_of_def example_div_def example_list_def
      reading_item_def named_def ascii_def)

text \<open>
  The page with the container and a well-formed usage table: a complete result, in
  which the reading without usage data is dropped.
\<close>

theorem pipeline_result_witness:
  "fetch_good_page [0x4E00] = Some good_page
   \<and> select_one readings_div_selector good_page = Some example_div
   \<and> extract_kanji_usage_data decimal_float good_page
       = Inr [\<lparr>reading = [0x3042], type = hiragana, percentage = 12\<rparr>]
   \<and> fetch_kanji_data fetch_good_page decimal_float [0x4E00]
       = Inr (Some \<lparr>kanji = [0x4E00], kunyomi = [], onyomi = [],
                    nanori = [([0x3042], \<lparr>meaning = ascii ''to meet, to see'',
                                           entry_percentage = 12\<rparr>)]\<rparr>)"
proof -
  have f: "fetch_good_page [0x4E00] = Some good_page" by (simp add: fetch_good_page_def)
  have l: "reading_percentages [\<lparr>reading = [0x3042], type = hiragana, percentage = 12\<rparr>]
           = [([0x3042], 12)]"
    by (simp add: reading_percentages_def)
  have n: "filter_and_sort_reading_type [([0x3042], ascii ''to meet, to see''), ([0x3044], [])]
             [([0x3042], 12)]
           = [([0x3042], \<lparr>meaning = ascii ''to meet, to see'', entry_percentage = 12\<rparr>)]"
    by (simp add: filter_and_sort_reading_type_def sort_reverse_def sort_key_of_def dict_get_def)
  have e: "filter_and_sort_reading_type [] [([0x3042], 12::real)] = []"
    by (simp add: filter_and_sort_reading_type_def sort_reverse_def)
  from pipeline_result[of fetch_good_page "[0x4E00]" decimal_float]
  have "fetch_kanji_data fetch_good_page decimal_float [0x4E00]
            = Inr (Some \<lparr>kanji = [0x4E00],
                kunyomi = filter_and_sort_reading_type
                  (extract_reading_type example_div (ascii ''Kun'' @ [39] @ ascii ''yomi''))
                  (reading_percentages [\<lparr>reading = [0x3042], type = hiragana, percentage = 12\<rparr>]),
                onyomi = filter_and_sort_reading_type
                  (extract_reading_type example_div (ascii ''On'' @ [39] @ ascii ''yomi''))
                  (reading_percentages [\<lparr>reading = [0x3042], type = hiragana, percentage = 12\<rparr>]),
                nanori = filter_and_sort_reading_type
                  (extract_reading_type example_div (ascii ''Nanori''))
                  (reading_percentages [\<lparr>reading = [0x3042], type = hiragana, percentage = 12\<rparr>])\<rparr>)"
    using f good_page_container good_page_extract by blast
  then show ?thesis
    using f good_page_container good_page_extract
    by (simp add: example_nanori example_other_categories l n e)
qed

end
